theory Spec2Isabelle
  imports Main
begin

section \<open>MolViewEditor: the editor lifecycle controller\<close>

text \<open>
  The component \<^verbatim>\<open>MolViewEditor\<close> is a Preact function component with three effects:
  the environment registration (dependencies \<^verbatim>\<open>[]\<close>), the main effect that creates the
  editor session (dependencies \<^verbatim>\<open>[onSave]\<close>) and the synchronisation of the
  \<^verbatim>\<open>initialCode\<close> prop (dependencies \<^verbatim>\<open>[initialCode, isReady]\<close>).

  Everything the component touches is made explicit in one state record: the process-wide
  globals (the language registry, \<^verbatim>\<open>window.MonacoEnvironment\<close>, the capturing key
  listeners of \<^verbatim>\<open>document\<close>, the pending timers, the editors and models created so far,
  the errors that no handler caught), the hooks of the live component instance
  (\<^verbatim>\<open>containerRef\<close>, \<^verbatim>\<open>editorRef\<close>, \<^verbatim>\<open>isReady\<close>, the cleanup closure of the main
  effect, the effect that a re-render left pending), and a chronological trace of the
  effects that are performed, among them the invocations of the host's callbacks.

  Host callbacks are opaque functions; they are represented by an identity, and calling
  one appends the call with its argument to the trace. \<^verbatim>\<open>console.log\<close> is not modelled.
  The props are the destructured parameters of the component, defaults applied. A string
  stands for the UTF-8 bytes of the source's string. One instance of the component is
  mounted at a time; each mount is a new instance with refs of its own.
\<close>

type_synonym callback = nat

record props =
  initialCode :: string
  onCodeChange :: "callback option"
  onSave :: "callback option"
  height :: string

text \<open>
  The editing engine is a third-party library. Two of its behaviours are parameters:
  whether \<^verbatim>\<open>monaco.languages.register\<close> throws for an id that is registered already, and
  whether disposing an editor widget also disposes a model that was handed to it through
  the \<^verbatim>\<open>model\<close> option.
\<close>

record engine_policy =
  register_rejects_duplicate :: bool
  dispose_destroys_model :: bool

datatype error = AlreadyRegistered | NullDereference | ModelAlreadyExists

datatype action =
    LanguageRegistered string
  | TokensProviderSet string
  | LanguageConfigurationSet string
  | RegistrationErrorCaught error
  | WorkerEnvironmentInstalled
  | KeyListenerAdded nat
  | KeyListenerRemoved nat
  | LanguageServiceConfigured
  | ModelCreated nat string
  | EditorCreated nat
  | CompletionInstalled
  | NudgeScheduled nat
  | EditorDisposed nat
  | ModelDisposed nat
  | EditorRefCleared
  | ValueSet nat string
  | DefaultPrevented
  | OnSave callback string
  | OnCodeChange callback string

text \<open>
  An editor widget together with the model it was created on. The model lives at a URI; the
  two closures registered on the widget (\<^verbatim>\<open>addCommand\<close> and
  \<^verbatim>\<open>onDidChangeModelContent\<close>) capture \<^verbatim>\<open>onSave\<close> and \<^verbatim>\<open>onCodeChange\<close> of the render that
  ran the main effect.
\<close>

record editor =
  uri :: string
  buffer :: string
  widget_disposed :: bool
  model_disposed :: bool
  save_command :: "callback option"
  change_listener :: "callback option"

text \<open>
  A key listener is stored with the number of the effect run that added it, the number of
  the component instance whose refs its closure reads, and the \<^verbatim>\<open>onSave\<close> it captured.
\<close>

record state =
  policy :: engine_policy
  languages :: "string list"
  worker_environment :: bool
  key_listeners :: "(nat \<times> nat \<times> callback option) list"
  timers :: "nat list"
  editors :: "editor list"
  dom_widget :: "nat option"
  trace :: "action list"
  uncaught :: "error list"
  mount_count :: nat
  mounted :: bool
  cur_props :: props
  containerRef :: bool
  editorRef :: "nat option"
  isReady :: bool
  effect_cleanup :: "nat option"
  sync_pending :: bool

record key_event =
  metaKey :: bool
  ctrlKey :: bool
  key :: string
  target_in_container :: bool
  widget_save_chord :: bool

definition no_props :: props where
  "no_props = \<lparr>initialCode = [], onCodeChange = None, onSave = None, height = []\<rparr>"

definition init :: "engine_policy \<Rightarrow> state" where
  "init pol = \<lparr>policy = pol, languages = [], worker_environment = False, key_listeners = [],
     timers = [], editors = [], dom_widget = None, trace = [], uncaught = [],
     mount_count = 0, mounted = False, cur_props = no_props, containerRef = False,
     editorRef = None, isReady = False, effect_cleanup = None, sync_pending = False\<rparr>"

definition emit :: "action \<Rightarrow> state \<Rightarrow> state" where
  "emit a s = s\<lparr>trace := trace s @ [a]\<rparr>"

subsection \<open>The editing engine, as far as the component uses it\<close>

text \<open>
  A model does not keep the string it is given. A byte-order mark at the start is taken
  off, and the line ends are made uniform: carriage return with line feed when more than
  half of the line ends hold a carriage return, line feed otherwise. \<^verbatim>\<open>getValue\<close> returns
  the text in this form, after \<^verbatim>\<open>createModel\<close> and after \<^verbatim>\<open>setValue\<close> alike.
\<close>

definition CR :: char where
  "CR = CHR 0x0D"

definition LF :: char where
  "LF = CHR 0x0A"

definition utf8_bom :: string where
  "utf8_bom = [CHR 0xEF, CHR 0xBB, CHR 0xBF]"

definition strip_bom :: "string \<Rightarrow> string" where
  "strip_bom t = (if take 3 t = utf8_bom then drop 3 t else t)"

text \<open>The numbers of lone carriage returns, of lone line feeds and of pairs.\<close>

fun eol_counts :: "string \<Rightarrow> nat \<times> nat \<times> nat" where
  "eol_counts [] = (0, 0, 0)"
| "eol_counts [c] = (if c = CR then (1, 0, 0) else if c = LF then (0, 1, 0) else (0, 0, 0))"
| "eol_counts (c # d # cs) =
     (if c = CR \<and> d = LF then
        (case eol_counts cs of (r, l, rl) \<Rightarrow> (r, l, rl + 1))
      else
        (case eol_counts (d # cs) of (r, l, rl) \<Rightarrow>
           if c = CR then (r + 1, l, rl) else if c = LF then (r, l + 1, rl) else (r, l, rl)))"

fun replace_eols :: "string \<Rightarrow> string \<Rightarrow> string" where
  "replace_eols eol [] = []"
| "replace_eols eol [c] = (if c = CR \<or> c = LF then eol else [c])"
| "replace_eols eol (c # d # cs) =
     (if c = CR \<and> d = LF then eol @ replace_eols eol cs
      else if c = CR \<or> c = LF then eol @ replace_eols eol (d # cs)
      else c # replace_eols eol (d # cs))"

definition normalize_eol :: "string \<Rightarrow> string" where
  "normalize_eol t =
     (case eol_counts t of
        (r, l, rl) \<Rightarrow>
          if r + l + rl = 0 then t
          else replace_eols (if r + l + rl < 2 * (r + rl) then [CR, LF] else [LF]) t)"

definition model_text :: "string \<Rightarrow> string" where
  "model_text t = normalize_eol (strip_bom t)"

definition getValue :: "editor \<Rightarrow> string" where
  "getValue ed = (if widget_disposed ed then [] else buffer ed)"

definition value_of :: "nat \<Rightarrow> state \<Rightarrow> string" where
  "value_of eid s = (if eid < length (editors s) then getValue (editors s ! eid) else [])"

text \<open>Lines 246-250: the subscription forwards the full text to the captured callback.\<close>

definition content_changed :: "nat \<Rightarrow> state \<Rightarrow> state" where
  "content_changed eid s =
     (if eid < length (editors s) then
        (case change_listener (editors s ! eid) of
           None \<Rightarrow> s
         | Some cb \<Rightarrow> emit (OnCodeChange cb (getValue (editors s ! eid))) s)
      else s)"

text \<open>
  An edit that the engine accepts (typed or pasted text, an undo, the \<^verbatim>\<open>type\<close> and
  \<^verbatim>\<open>undo\<close> commands of \<^verbatim>\<open>editor.trigger\<close>) is described by the text the document holds
  after it. What that text is, the engine decides: it closes brackets and quotes, indents,
  puts its own line end for a line break, and undoes typed characters in groups. The
  component sees an edit only through the content-change event, which fires once.
\<close>

definition apply_edit :: "nat \<Rightarrow> string \<Rightarrow> state \<Rightarrow> state" where
  "apply_edit eid t s =
     (if eid < length (editors s) \<and> \<not> widget_disposed (editors s ! eid) then
        content_changed eid (s\<lparr>editors := (editors s)[eid := (editors s ! eid)\<lparr>buffer := t\<rparr>]\<rparr>)
      else s)"

definition setValue :: "nat \<Rightarrow> string \<Rightarrow> state \<Rightarrow> state" where
  "setValue eid v s =
     (if eid < length (editors s) \<and> \<not> widget_disposed (editors s ! eid) then
        content_changed eid
          (emit (ValueSet eid v)
            (s\<lparr>editors := (editors s)[eid := (editors s ! eid)\<lparr>buffer := model_text v\<rparr>]\<rparr>))
      else s)"

definition dispose_editor :: "nat \<Rightarrow> state \<Rightarrow> state" where
  "dispose_editor eid s =
     (let s1 = emit (EditorDisposed eid)
                 (s\<lparr>editors := (editors s)[eid := (editors s ! eid)\<lparr>widget_disposed := True\<rparr>],
                    dom_widget := (if dom_widget s = Some eid then None else dom_widget s)\<rparr>)
      in if dispose_destroys_model (policy s) then
           emit (ModelDisposed eid)
             (s1\<lparr>editors := (editors s1)[eid := (editors s1 ! eid)\<lparr>model_disposed := True\<rparr>]\<rparr>)
         else s1)"

definition register_language :: "string \<Rightarrow> state \<Rightarrow> error + state" where
  "register_language lang s =
     (if register_rejects_duplicate (policy s) \<and> lang \<in> set (languages s)
      then Inl AlreadyRegistered
      else Inr (emit (LanguageRegistered lang) (s\<lparr>languages := languages s @ [lang]\<rparr>)))"

text \<open>
  \<^verbatim>\<open>createModel\<close> throws when a model that is not disposed lives at the URI already.
\<close>

definition main_uri :: string where
  "main_uri = ''file:///main.js''"

definition uri_in_use :: "string \<Rightarrow> state \<Rightarrow> bool" where
  "uri_in_use u s = list_ex (\<lambda>ed. uri ed = u \<and> \<not> model_disposed ed) (editors s)"

subsection \<open>The first effect: environment registration (lines 100-123)\<close>

definition try_register :: "state \<Rightarrow> error + state" where
  "try_register s =
     (case register_language ''javascript'' s of
        Inl e \<Rightarrow> Inl e
      | Inr s1 \<Rightarrow>
          Inr (emit (LanguageConfigurationSet ''javascript'')
                (emit (TokensProviderSet ''javascript'') s1)))"

definition registration_effect :: "state \<Rightarrow> state" where
  "registration_effect s =
     (let s1 = (case try_register s of
                  Inr s' \<Rightarrow> s'
                | Inl e \<Rightarrow> emit (RegistrationErrorCaught e) s)
      in if \<not> worker_environment s1
         then emit WorkerEnvironmentInstalled (s1\<lparr>worker_environment := True\<rparr>)
         else s1)"

text \<open>The resolution function installed as \<^verbatim>\<open>getWorkerUrl\<close> (lines 114-120).\<close>

definition getWorkerUrl :: "string \<Rightarrow> string \<Rightarrow> string" where
  "getWorkerUrl moduleId label =
     (if label = ''typescript'' \<or> label = ''javascript'' then ''./ts.worker.js''
      else ''./editor.worker.js'')"

subsection \<open>The main effect (lines 125-267)\<close>

text \<open>
  \<^verbatim>\<open>handleKeyDown\<close>, the capturing listener on \<^verbatim>\<open>document\<close>. The closure captures
  \<^verbatim>\<open>onSave\<close>; the two refs are read when the event arrives. The second component of the
  result tells whether \<^verbatim>\<open>stopPropagation\<close> was called.
\<close>

definition handleKeyDown :: "callback option \<Rightarrow> key_event \<Rightarrow> state \<Rightarrow> state \<times> bool" where
  "handleKeyDown cb e s =
     (if (metaKey e \<or> ctrlKey e) \<and> key e = ''s'' then
        if containerRef s \<and> target_in_container e then
          (let s1 = emit DefaultPrevented s
           in case (cb, editorRef s1) of
                (Some f, Some eid) \<Rightarrow> (emit (OnSave f (value_of eid s1)) s1, True)
              | _ \<Rightarrow> (s1, True))
        else (s, False)
      else (s, False))"

definition new_editor :: "props \<Rightarrow> editor" where
  "new_editor p = \<lparr>uri = main_uri, buffer = model_text (initialCode p), widget_disposed = False,
     model_disposed = False, save_command = onSave p, change_listener = onCodeChange p\<rparr>"

text \<open>
  \<^verbatim>\<open>initEditor\<close> (lines 147-253). The language service is configured first; then the model
  is created at the fixed URI, and when that throws, nothing of what follows happens. The
  second component of the result is the error thrown, if any.
\<close>

definition initEditor :: "props \<Rightarrow> state \<Rightarrow> state \<times> error option" where
  "initEditor p s =
     (let s1 = emit LanguageServiceConfigured s
      in if uri_in_use main_uri s1 then (s1, Some ModelAlreadyExists)
         else
           (let eid = length (editors s1);
                s2 = emit (ModelCreated eid (initialCode p)) s1;
                s3 = emit (EditorCreated eid)
                       (s2\<lparr>editors := editors s2 @ [new_editor p], dom_widget := Some eid\<rparr>);
                s4 = s3\<lparr>editorRef := Some eid\<rparr>;
                s5 = emit CompletionInstalled s4;
                s6 = emit (NudgeScheduled eid) (s5\<lparr>timers := timers s5 @ [eid]\<rparr>)
            in (s6\<lparr>isReady := True\<rparr>, None)))"

text \<open>
  The effect adds the key listener before it calls \<^verbatim>\<open>initEditor\<close>. When \<^verbatim>\<open>initEditor\<close>
  throws, the effect returns no cleanup, the listener stays on \<^verbatim>\<open>document\<close> and the error
  reaches no handler. The second component of the result tells whether the effect threw.
\<close>

definition run_main_effect :: "props \<Rightarrow> state \<Rightarrow> state \<times> bool" where
  "run_main_effect p s =
     (if \<not> containerRef s then (s\<lparr>effect_cleanup := None\<rparr>, False)
      else
        (let lid = length (editors s);
             s1 = emit (KeyListenerAdded lid)
                    (s\<lparr>key_listeners := key_listeners s @ [(lid, mount_count s, onSave p)]\<rparr>)
         in case initEditor p s1 of
              (s2, Some e) \<Rightarrow> (s2\<lparr>uncaught := uncaught s2 @ [e]\<rparr>, True)
            | (s2, None) \<Rightarrow> (s2\<lparr>effect_cleanup := Some lid\<rparr>, False)))"

definition main_effect :: "props \<Rightarrow> state \<Rightarrow> state" where
  "main_effect p s = fst (run_main_effect p s)"

text \<open>
  The cleanup closure (lines 260-266). A method call on a null reference throws; the
  call of \<^verbatim>\<open>dispose\<close> is modelled with that branch, so that the guard around it has
  something to guard.
\<close>

definition removeKeyListener :: "nat \<Rightarrow> state \<Rightarrow> state" where
  "removeKeyListener lid s =
     (if lid \<in> fst ` set (key_listeners s)
      then emit (KeyListenerRemoved lid)
             (s\<lparr>key_listeners := filter (\<lambda>l. fst l \<noteq> lid) (key_listeners s)\<rparr>)
      else s)"

definition call_dispose :: "nat option \<Rightarrow> state \<Rightarrow> error + state" where
  "call_dispose r s = (case r of None \<Rightarrow> Inl NullDereference | Some eid \<Rightarrow> Inr (dispose_editor eid s))"

definition cleanup :: "nat \<Rightarrow> state \<Rightarrow> error + state" where
  "cleanup lid s =
     (let s1 = removeKeyListener lid s
      in if editorRef s1 \<noteq> None then
           (case call_dispose (editorRef s1) s1 of
              Inl e \<Rightarrow> Inl e
            | Inr s2 \<Rightarrow> Inr (emit EditorRefCleared (s2\<lparr>editorRef := None\<rparr>)))
         else Inr s1)"

definition run_cleanup :: "state \<Rightarrow> state" where
  "run_cleanup s =
     (case effect_cleanup s of
        None \<Rightarrow> s
      | Some lid \<Rightarrow>
          (case cleanup lid s of
             Inr s' \<Rightarrow> s'\<lparr>effect_cleanup := None\<rparr>
           | Inl e \<Rightarrow> s\<lparr>uncaught := uncaught s @ [e], effect_cleanup := None\<rparr>))"

subsection \<open>The third effect: synchronising the prop (lines 270-277)\<close>

text \<open>The second argument is \<^verbatim>\<open>isReady\<close> as the render that created the closure saw it.\<close>

definition sync_effect :: "props \<Rightarrow> bool \<Rightarrow> state \<Rightarrow> state" where
  "sync_effect p ready s =
     (case editorRef s of
        None \<Rightarrow> s
      | Some eid \<Rightarrow>
          if ready then
            (if value_of eid s \<noteq> initialCode p then setValue eid (initialCode p) s else s)
          else s)"

subsection \<open>Rendering, events and runs\<close>

text \<open>
  Effects run after the render that scheduled them, in the order of their declaration, all
  cleanups before all effects; an effect that throws ends the run, and the effects after it
  are dropped.

  Mounting renders with \<^verbatim>\<open>isReady = false\<close>, attaches the container and runs the three
  effects. \<^verbatim>\<open>setIsReady(true)\<close> causes a second render, whose only effect with a changed
  dependency is the third; that effect stays pending until the next flush, and user input
  can arrive before it. A pending effect runs before the component renders again. A later
  render with new props runs the cleanup of the main effect when \<^verbatim>\<open>onSave\<close> changed, then
  the effects whose dependencies changed. Unmounting runs the cleanup, drops what was
  pending and detaches the container.

  A render with new props and the run of its effects are one step. The effects read the
  refs and the document when they run, so an event that arrives between the render and its
  effects has the same outcome as the same event before the render.
\<close>

definition flush_effects :: "state \<Rightarrow> state" where
  "flush_effects s =
     (if mounted s \<and> sync_pending s
      then (sync_effect (cur_props s) True s)\<lparr>sync_pending := False\<rparr>
      else s)"

definition mount :: "props \<Rightarrow> state \<Rightarrow> state" where
  "mount p s =
     (let s0 = s\<lparr>mount_count := Suc (mount_count s), mounted := True, cur_props := p,
                 containerRef := True, editorRef := None, isReady := False,
                 effect_cleanup := None, sync_pending := False\<rparr>;
          s1 = registration_effect s0
      in case run_main_effect p s1 of
           (s2, True) \<Rightarrow> s2
         | (s2, False) \<Rightarrow>
             (let s3 = sync_effect p False s2
              in if isReady s3 then s3\<lparr>sync_pending := True\<rparr> else s3))"

definition rerender :: "props \<Rightarrow> state \<Rightarrow> state" where
  "rerender p s =
     (let sf = flush_effects s;
          old = cur_props sf;
          r = isReady sf;
          s0 = sf\<lparr>cur_props := p\<rparr>
      in case (if onSave p \<noteq> onSave old then run_main_effect p (run_cleanup s0) else (s0, False)) of
           (s1, True) \<Rightarrow> s1
         | (s1, False) \<Rightarrow>
             (let s2 = (if initialCode p \<noteq> initialCode old then sync_effect p r s1 else s1)
              in if isReady s2 \<noteq> r then s2\<lparr>sync_pending := True\<rparr> else s2))"

definition unmount :: "state \<Rightarrow> state" where
  "unmount s = (run_cleanup s)\<lparr>mounted := False, containerRef := False, sync_pending := False\<rparr>"

text \<open>
  A listener reads the refs of the instance that created it. The refs of an instance that
  is no longer mounted are null, so its listener, if one was left behind, does nothing.
\<close>

definition listener_keydown :: "nat \<times> nat \<times> callback option \<Rightarrow> key_event \<Rightarrow> state \<Rightarrow> state \<times> bool" where
  "listener_keydown l e s =
     (if mounted s \<and> fst (snd l) = mount_count s then handleKeyDown (snd (snd l)) e s
      else (s, False))"

fun run_listeners :: "(nat \<times> nat \<times> callback option) list \<Rightarrow> key_event \<Rightarrow> state \<Rightarrow> state \<times> bool" where
  "run_listeners [] e s = (s, False)"
| "run_listeners (l # ls) e s =
     (case listener_keydown l e s of
        (s1, stopped1) \<Rightarrow>
          (case run_listeners ls e s1 of (s2, stopped2) \<Rightarrow> (s2, stopped1 \<or> stopped2)))"

text \<open>
  The command registered with \<^verbatim>\<open>addCommand\<close> (lines 239-243). The widget sees a key
  event only when the event's target lies inside it and no capturing listener stopped
  the propagation; whether the engine resolves the event to the chord
  \<^verbatim>\<open>CtrlCmd+KeyS\<close> is a property of the event.
\<close>

definition save_command_run :: "nat \<Rightarrow> state \<Rightarrow> state" where
  "save_command_run eid s =
     (if eid < length (editors s) \<and> \<not> widget_disposed (editors s ! eid) then
        (case save_command (editors s ! eid) of
           None \<Rightarrow> s
         | Some f \<Rightarrow> emit (OnSave f (getValue (editors s ! eid))) s)
      else s)"

definition widget_keydown :: "key_event \<Rightarrow> state \<Rightarrow> state" where
  "widget_keydown e s =
     (if target_in_container e \<and> widget_save_chord e then
        (case dom_widget s of None \<Rightarrow> s | Some eid \<Rightarrow> save_command_run eid s)
      else s)"

definition keydown :: "key_event \<Rightarrow> state \<Rightarrow> state" where
  "keydown e s =
     (case run_listeners (key_listeners s) e s of
        (s1, stopped) \<Rightarrow> if stopped then s1 else widget_keydown e s1)"

text \<open>
  The delayed closure of lines 227-236; \<^verbatim>\<open>getModel\<close> is null once the widget is disposed.
  The two texts are what the document holds after the typed space and after the undo.
\<close>

definition nudge :: "nat \<Rightarrow> string \<Rightarrow> string \<Rightarrow> state \<Rightarrow> state" where
  "nudge eid typed undone s =
     (if eid < length (editors s) \<and> \<not> widget_disposed (editors s ! eid)
      then apply_edit eid undone (apply_edit eid typed s)
      else s)"

definition timer_fires :: "nat \<Rightarrow> string \<Rightarrow> string \<Rightarrow> state \<Rightarrow> state" where
  "timer_fires eid typed undone s =
     (if eid \<in> set (timers s) then nudge eid typed undone (s\<lparr>timers := remove1 eid (timers s)\<rparr>)
      else s)"

definition user_edits :: "string \<Rightarrow> state \<Rightarrow> state" where
  "user_edits t s = (case dom_widget s of None \<Rightarrow> s | Some eid \<Rightarrow> apply_edit eid t s)"

datatype input =
    Mount props
  | Rerender props
  | Unmount
  | Flush
  | KeyDown key_event
  | UserEdit string
  | TimerFires nat string string

fun step :: "state \<Rightarrow> input \<Rightarrow> state" where
  "step s (Mount p) = (if mounted s then s else mount p s)"
| "step s (Rerender p) = (if mounted s then rerender p s else s)"
| "step s Unmount = (if mounted s then unmount s else s)"
| "step s Flush = flush_effects s"
| "step s (KeyDown e) = keydown e s"
| "step s (UserEdit t) = user_edits t s"
| "step s (TimerFires eid typed undone) = timer_fires eid typed undone s"

definition run :: "state \<Rightarrow> input list \<Rightarrow> state" where
  "run s ins = foldl step s ins"

subsection \<open>Observations used in the statements\<close>

text \<open>
  The calls that reach the host, a Ready session, the live text of the session's document,
  and the two ways in which a key event can be the save gesture: the test of
  \<^verbatim>\<open>handleKeyDown\<close> and the chord of the widget's command.
\<close>

fun is_host_call :: "action \<Rightarrow> bool" where
  "is_host_call (OnSave f t) = True"
| "is_host_call (OnCodeChange f t) = True"
| "is_host_call _ = False"

fun is_replace_or_change :: "action \<Rightarrow> bool" where
  "is_replace_or_change (ValueSet n t) = True"
| "is_replace_or_change (OnCodeChange f t) = True"
| "is_replace_or_change _ = False"

definition host_calls :: "action list \<Rightarrow> action list" where
  "host_calls t = filter is_host_call t"

definition ready :: "state \<Rightarrow> bool" where
  "ready s = (mounted s \<and> isReady s \<and> editorRef s \<noteq> None)"

definition live_text :: "state \<Rightarrow> string" where
  "live_text s = (case editorRef s of None \<Rightarrow> [] | Some eid \<Rightarrow> value_of eid s)"

definition save_gesture :: "key_event \<Rightarrow> bool" where
  "save_gesture e = (((metaKey e \<or> ctrlKey e) \<and> key e = ''s'') \<or> widget_save_chord e)"

fun is_mount :: "input \<Rightarrow> bool" where
  "is_mount (Mount p) = True"
| "is_mount _ = False"

text \<open>
  The engine the component is built against: \<^verbatim>\<open>monaco.languages.register\<close> appends an
  entry also for an id that is registered already, and a widget disposes only a model that
  it created itself, not one it was given through the \<^verbatim>\<open>model\<close> option. Sample props and a
  sample key event, Ctrl+S with its target inside or outside the container, serve as
  concrete inputs.
\<close>

definition monaco_policy :: engine_policy where
  "monaco_policy = \<lparr>register_rejects_duplicate = False, dispose_destroys_model = False\<rparr>"

definition demo_props :: props where
  "demo_props = \<lparr>initialCode = ''ab'', onCodeChange = Some 1, onSave = Some 2, height = ''400px''\<rparr>"

definition ctrl_s :: "bool \<Rightarrow> key_event" where
  "ctrl_s inside = \<lparr>metaKey = False, ctrlKey = True, key = ''s'', target_in_container = inside,
     widget_save_chord = True\<rparr>"

text \<open>
  The invariant of the states that runs from the initial state reach. Every model lives at
  the one URI; every widget but the one in the container is disposed; a model is disposed
  exactly when the engine disposes models with their widgets and its widget is disposed. A
  component with a session holds its editor, the one key listener and the cleanup of the
  same effect run, and no error has escaped. Without a session, the component is mounted,
  a listener was left behind or an error escaped only if a model blocks the URI for good.
\<close>

definition wf :: "state \<Rightarrow> bool" where
  "wf s \<longleftrightarrow>
     (\<forall>i < length (editors s). uri (editors s ! i) = main_uri) \<and>
     (\<forall>i < length (editors s). Some i \<noteq> dom_widget s \<longrightarrow> widget_disposed (editors s ! i)) \<and>
     (\<forall>i < length (editors s). model_disposed (editors s ! i) =
         (dispose_destroys_model (policy s) \<and> widget_disposed (editors s ! i))) \<and>
     (mounted s \<longrightarrow> containerRef s) \<and> (containerRef s \<longrightarrow> mounted s) \<and>
     (case editorRef s of
        None \<Rightarrow>
          dom_widget s = None \<and> effect_cleanup s = None \<and> \<not> sync_pending s \<and>
          ((key_listeners s = [] \<and> uncaught s = [] \<and> \<not> mounted s) \<or>
           (\<not> dispose_destroys_model (policy s) \<and> editors s \<noteq> []))
      | Some eid \<Rightarrow>
          mounted s \<and> isReady s \<and> eid < length (editors s) \<and>
          dom_widget s = Some eid \<and> effect_cleanup s = Some eid \<and>
          key_listeners s = [(eid, mount_count s, onSave (cur_props s))] \<and>
          \<not> widget_disposed (editors s ! eid) \<and>
          save_command (editors s ! eid) = onSave (cur_props s) \<and>
          uncaught s = [])"

section \<open>The invariant and the normal forms of the operations\<close>

lemma wf_init: "wf (init pol)"
  by (simp add: wf_def init_def)

lemma wf_session:
  "wf s \<Longrightarrow> editorRef s = Some eid \<Longrightarrow>
     mounted s \<and> containerRef s \<and> isReady s \<and> eid < length (editors s) \<and>
     dom_widget s = Some eid \<and> effect_cleanup s = Some eid \<and>
     key_listeners s = [(eid, mount_count s, onSave (cur_props s))] \<and>
     \<not> widget_disposed (editors s ! eid) \<and>
     save_command (editors s ! eid) = onSave (cur_props s) \<and> uncaught s = []"
  by (auto simp: wf_def)

lemma wf_no_session:
  "wf s \<Longrightarrow> editorRef s = None \<Longrightarrow>
     dom_widget s = None \<and> effect_cleanup s = None \<and> \<not> sync_pending s \<and>
     ((key_listeners s = [] \<and> uncaught s = [] \<and> \<not> mounted s) \<or>
      (\<not> dispose_destroys_model (policy s) \<and> editors s \<noteq> []))"
  by (simp add: wf_def)

lemma wf_unmounted: "wf s \<Longrightarrow> \<not> mounted s \<Longrightarrow> editorRef s = None \<and> \<not> containerRef s"
  by (cases "editorRef s") (simp_all add: wf_def)

lemma wf_container: "wf s \<Longrightarrow> containerRef s = mounted s"
  by (auto simp: wf_def)

lemma wf_others_disposed:
  "wf s \<Longrightarrow> i < length (editors s) \<Longrightarrow> Some i \<noteq> dom_widget s \<Longrightarrow> widget_disposed (editors s ! i)"
  by (simp add: wf_def)

lemma wf_model_disposed:
  "wf s \<Longrightarrow> i < length (editors s) \<Longrightarrow>
     model_disposed (editors s ! i) =
       (dispose_destroys_model (policy s) \<and> widget_disposed (editors s ! i))"
  by (simp add: wf_def)

lemma wf_uri: "wf s \<Longrightarrow> i < length (editors s) \<Longrightarrow> uri (editors s ! i) = main_uri"
  by (simp add: wf_def)

lemma wf_trace_update [simp]: "wf (s\<lparr>trace := t\<rparr>) = wf s"
  by (simp add: wf_def split: option.splits)

lemma wf_timers_update [simp]: "wf (s\<lparr>timers := t\<rparr>) = wf s"
  by (simp add: wf_def split: option.splits)

text \<open>Without a widget in the container, the URI is blocked exactly by a model that stays.\<close>

lemma uri_in_use_iff:
  assumes "wf s" "dom_widget s = None"
  shows "uri_in_use main_uri s \<longleftrightarrow> \<not> dispose_destroys_model (policy s) \<and> editors s \<noteq> []"
proof -
  have d: "\<forall>i<length (editors s). widget_disposed (editors s ! i)"
    using wf_others_disposed[OF assms(1)] assms(2) by simp
  have "uri_in_use main_uri s \<longleftrightarrow> (\<exists>i<length (editors s). \<not> model_disposed (editors s ! i))"
    using wf_uri[OF assms(1)] by (fastforce simp: uri_in_use_def list_ex_iff in_set_conv_nth)
  also have "\<dots> \<longleftrightarrow> (\<exists>i<length (editors s). \<not> dispose_destroys_model (policy s))"
    using wf_model_disposed[OF assms(1)] d by auto
  also have "\<dots> \<longleftrightarrow> \<not> dispose_destroys_model (policy s) \<and> editors s \<noteq> []"
    by auto
  finally show ?thesis .
qed

lemma uri_in_use_cong:
  "editors s' = editors s \<Longrightarrow> uri_in_use u s' = uri_in_use u s"
  by (simp add: uri_in_use_def)

lemma sync_effect_not_ready: "sync_effect p False s = s"
  by (simp add: sync_effect_def split: option.splits)

lemma sync_effect_no_session: "editorRef s = None \<Longrightarrow> sync_effect p r s = s"
  by (simp add: sync_effect_def)

lemma registration_effect_self:
  "registration_effect s =
     s\<lparr>languages := languages (registration_effect s), worker_environment := True,
       trace := trace (registration_effect s)\<rparr>"
  by (cases s) (simp add: registration_effect_def try_register_def register_language_def emit_def Let_def)

lemma registration_effect_frame:
  "\<exists>L T. registration_effect s = s\<lparr>languages := L, worker_environment := True, trace := T\<rparr>"
  by (intro exI, rule registration_effect_self)

lemma run_main_effect_ok:
  "containerRef s \<Longrightarrow> \<not> uri_in_use main_uri s \<Longrightarrow>
   run_main_effect p s =
     (s\<lparr>key_listeners := key_listeners s @ [(length (editors s), mount_count s, onSave p)],
        timers := timers s @ [length (editors s)],
        editors := editors s @ [new_editor p],
        dom_widget := Some (length (editors s)),
        trace := trace s @ [KeyListenerAdded (length (editors s)), LanguageServiceConfigured,
                   ModelCreated (length (editors s)) (initialCode p),
                   EditorCreated (length (editors s)), CompletionInstalled,
                   NudgeScheduled (length (editors s))],
        editorRef := Some (length (editors s)),
        isReady := True,
        effect_cleanup := Some (length (editors s))\<rparr>, False)"
  by (simp add: run_main_effect_def initEditor_def emit_def Let_def uri_in_use_def)

lemma run_main_effect_throws:
  "containerRef s \<Longrightarrow> uri_in_use main_uri s \<Longrightarrow>
   run_main_effect p s =
     (s\<lparr>key_listeners := key_listeners s @ [(length (editors s), mount_count s, onSave p)],
        trace := trace s @ [KeyListenerAdded (length (editors s)), LanguageServiceConfigured],
        uncaught := uncaught s @ [ModelAlreadyExists]\<rparr>, True)"
  by (simp add: run_main_effect_def initEditor_def emit_def Let_def uri_in_use_def)

text \<open>Mounting, in the two ways it can end.\<close>

lemma mount_ok:
  assumes "wf s" "\<not> mounted s" "dispose_destroys_model (policy s) \<or> editors s = []"
  shows "\<exists>L T. mount p s =
     s\<lparr>languages := L, worker_environment := True,
       key_listeners := key_listeners s @ [(length (editors s), Suc (mount_count s), onSave p)],
       timers := timers s @ [length (editors s)],
       editors := editors s @ [new_editor p],
       dom_widget := Some (length (editors s)),
       trace := T @ [KeyListenerAdded (length (editors s)), LanguageServiceConfigured,
                   ModelCreated (length (editors s)) (initialCode p),
                   EditorCreated (length (editors s)), CompletionInstalled,
                   NudgeScheduled (length (editors s))],
       mount_count := Suc (mount_count s), mounted := True, cur_props := p,
       containerRef := True,
       editorRef := Some (length (editors s)),
       isReady := True,
       effect_cleanup := Some (length (editors s)),
       sync_pending := True\<rparr>"
proof -
  let ?s0 = "s\<lparr>mount_count := Suc (mount_count s), mounted := True, cur_props := p,
                 containerRef := True, editorRef := None, isReady := False,
                 effect_cleanup := None, sync_pending := False\<rparr>"
  obtain L T where r: "registration_effect ?s0 = ?s0\<lparr>languages := L, worker_environment := True, trace := T\<rparr>"
    using registration_effect_frame by blast
  from wf_unmounted[OF assms(1,2)] have n: "editorRef s = None" by simp
  from wf_no_session[OF assms(1) n] have d: "dom_widget s = None" by simp
  have u: "\<not> uri_in_use main_uri s" using uri_in_use_iff[OF assms(1) d] assms(3) by auto
  have u': "\<not> uri_in_use main_uri (registration_effect ?s0)"
    using u by (simp add: r uri_in_use_def)
  have c: "containerRef (registration_effect ?s0)" by (simp add: r)
  show ?thesis
    unfolding mount_def Let_def run_main_effect_ok[OF c u'] sync_effect_not_ready
    by (intro exI[of _ L] exI[of _ T]) (simp add: r)
qed

lemma mount_throws:
  assumes "wf s" "\<not> mounted s" "\<not> dispose_destroys_model (policy s)" "editors s \<noteq> []"
  shows "\<exists>L T. mount p s =
     s\<lparr>languages := L, worker_environment := True,
       key_listeners := key_listeners s @ [(length (editors s), Suc (mount_count s), onSave p)],
       trace := T @ [KeyListenerAdded (length (editors s)), LanguageServiceConfigured],
       uncaught := uncaught s @ [ModelAlreadyExists],
       mount_count := Suc (mount_count s), mounted := True, cur_props := p,
       containerRef := True, editorRef := None, isReady := False,
       effect_cleanup := None, sync_pending := False\<rparr>"
proof -
  let ?s0 = "s\<lparr>mount_count := Suc (mount_count s), mounted := True, cur_props := p,
                 containerRef := True, editorRef := None, isReady := False,
                 effect_cleanup := None, sync_pending := False\<rparr>"
  obtain L T where r: "registration_effect ?s0 = ?s0\<lparr>languages := L, worker_environment := True, trace := T\<rparr>"
    using registration_effect_frame by blast
  from wf_unmounted[OF assms(1,2)] have n: "editorRef s = None" by simp
  from wf_no_session[OF assms(1) n] have d: "dom_widget s = None" by simp
  have u: "uri_in_use main_uri s" using uri_in_use_iff[OF assms(1) d] assms(3,4) by auto
  have u': "uri_in_use main_uri (registration_effect ?s0)"
    using u by (simp add: r uri_in_use_def)
  have c: "containerRef (registration_effect ?s0)" by (simp add: r)
  show ?thesis
    unfolding mount_def Let_def run_main_effect_throws[OF c u']
    by (intro exI[of _ L] exI[of _ T]) (simp add: r)
qed

lemma wf_mount:
  assumes "wf s" "\<not> mounted s" shows "wf (mount p s)"
proof -
  from wf_unmounted[OF assms] have n: "editorRef s = None" by simp
  note ns = wf_no_session[OF assms(1) n]
  have d: "\<forall>i<length (editors s). widget_disposed (editors s ! i)"
    using wf_others_disposed[OF assms(1)] ns by simp
  note md = wf_model_disposed[OF assms(1)] and ur = wf_uri[OF assms(1)]
  show ?thesis
  proof (cases "dispose_destroys_model (policy s) \<or> editors s = []")
    case True
    from mount_ok[OF assms True, of p] obtain L T where m: "mount p s =
     s\<lparr>languages := L, worker_environment := True,
       key_listeners := key_listeners s @ [(length (editors s), Suc (mount_count s), onSave p)],
       timers := timers s @ [length (editors s)],
       editors := editors s @ [new_editor p],
       dom_widget := Some (length (editors s)),
       trace := T @ [KeyListenerAdded (length (editors s)), LanguageServiceConfigured,
                   ModelCreated (length (editors s)) (initialCode p),
                   EditorCreated (length (editors s)), CompletionInstalled,
                   NudgeScheduled (length (editors s))],
       mount_count := Suc (mount_count s), mounted := True, cur_props := p,
       containerRef := True,
       editorRef := Some (length (editors s)),
       isReady := True,
       effect_cleanup := Some (length (editors s)),
       sync_pending := True\<rparr>" by blast
    from ns True have k: "key_listeners s = []" "uncaught s = []" by auto
    show ?thesis
      unfolding m using d md ur k by (simp add: wf_def nth_append new_editor_def)
  next
    case False
    then have f: "\<not> dispose_destroys_model (policy s)" "editors s \<noteq> []" by auto
    from mount_throws[OF assms f, of p] obtain L T where m: "mount p s =
     s\<lparr>languages := L, worker_environment := True,
       key_listeners := key_listeners s @ [(length (editors s), Suc (mount_count s), onSave p)],
       trace := T @ [KeyListenerAdded (length (editors s)), LanguageServiceConfigured],
       uncaught := uncaught s @ [ModelAlreadyExists],
       mount_count := Suc (mount_count s), mounted := True, cur_props := p,
       containerRef := True, editorRef := None, isReady := False,
       effect_cleanup := None, sync_pending := False\<rparr>" by blast
    show ?thesis
      unfolding m using d md ur ns f assms(1) by (simp add: wf_def)
  qed
qed

lemma content_changed_eq:
  "eid < length (editors s) \<Longrightarrow>
   content_changed eid s =
     s\<lparr>trace := trace s @ (case change_listener (editors s ! eid) of
                            None \<Rightarrow> []
                          | Some cb \<Rightarrow> [OnCodeChange cb (getValue (editors s ! eid))])\<rparr>"
  by (simp add: content_changed_def emit_def split: option.splits)

lemma apply_edit_eq:
  "eid < length (editors s) \<Longrightarrow> \<not> widget_disposed (editors s ! eid) \<Longrightarrow>
   apply_edit eid t s =
     s\<lparr>editors := (editors s)[eid := (editors s ! eid)\<lparr>buffer := t\<rparr>],
       trace := trace s @ (case change_listener (editors s ! eid) of
                            None \<Rightarrow> []
                          | Some cb \<Rightarrow> [OnCodeChange cb t])\<rparr>"
  by (simp add: apply_edit_def content_changed_eq getValue_def split: option.splits)

lemma nudge_eq:
  "eid < length (editors s) \<Longrightarrow> \<not> widget_disposed (editors s ! eid) \<Longrightarrow>
   nudge eid typed undone s =
     s\<lparr>editors := (editors s)[eid := (editors s ! eid)\<lparr>buffer := undone\<rparr>],
       trace := trace s @ (case change_listener (editors s ! eid) of
                            None \<Rightarrow> []
                          | Some cb \<Rightarrow> [OnCodeChange cb typed, OnCodeChange cb undone])\<rparr>"
  by (simp add: nudge_def apply_edit_eq split: option.splits)

lemma nudge_disposed:
  "\<not> (eid < length (editors s) \<and> \<not> widget_disposed (editors s ! eid)) \<Longrightarrow>
   nudge eid typed undone s = s"
  by (auto simp: nudge_def)

lemma setValue_eq:
  "eid < length (editors s) \<Longrightarrow> \<not> widget_disposed (editors s ! eid) \<Longrightarrow>
   setValue eid v s =
     s\<lparr>editors := (editors s)[eid := (editors s ! eid)\<lparr>buffer := model_text v\<rparr>],
       trace := trace s @ ValueSet eid v #
                  (case change_listener (editors s ! eid) of
                     None \<Rightarrow> []
                   | Some cb \<Rightarrow> [OnCodeChange cb (model_text v)])\<rparr>"
  by (simp add: setValue_def content_changed_eq getValue_def emit_def split: option.splits)

lemma sync_effect_eq:
  "editorRef s = Some eid \<Longrightarrow> eid < length (editors s) \<Longrightarrow> \<not> widget_disposed (editors s ! eid) \<Longrightarrow>
   sync_effect p True s =
     (if buffer (editors s ! eid) \<noteq> initialCode p then setValue eid (initialCode p) s else s)"
  by (simp add: sync_effect_def value_of_def getValue_def)

text \<open>An update of the buffer of the session's editor keeps the invariant.\<close>

lemma wf_buffer_update:
  assumes "wf s" "editorRef s = Some eid"
  shows "wf (s\<lparr>editors := (editors s)[eid := (editors s ! eid)\<lparr>buffer := t\<rparr>]\<rparr>)"
  using assms by (auto simp: wf_def nth_list_update)

lemma wf_props_update:
  "wf s \<Longrightarrow> onSave p = onSave (cur_props s) \<Longrightarrow> wf (s\<lparr>cur_props := p\<rparr>)"
  by (simp add: wf_def split: option.splits)

lemma wf_pending_update:
  "wf s \<Longrightarrow> editorRef s \<noteq> None \<Longrightarrow> wf (s\<lparr>sync_pending := b\<rparr>)"
  by (auto simp: wf_def split: option.splits)

lemma cleanup_eq:
  "editorRef s = Some eid \<Longrightarrow> key_listeners s = [(lid, k, cb)] \<Longrightarrow> eid < length (editors s) \<Longrightarrow>
   cleanup lid s = Inr
     (s\<lparr>key_listeners := [],
        editors := (editors s)[eid := (editors s ! eid)\<lparr>widget_disposed := True,
           model_disposed := (dispose_destroys_model (policy s) \<or> model_disposed (editors s ! eid))\<rparr>],
        dom_widget := (if dom_widget s = Some eid then None else dom_widget s),
        trace := trace s @ [KeyListenerRemoved lid, EditorDisposed eid] @
                 (if dispose_destroys_model (policy s) then [ModelDisposed eid] else []) @
                 [EditorRefCleared],
        editorRef := None\<rparr>)"
  by (simp add: cleanup_def removeKeyListener_def call_dispose_def dispose_editor_def emit_def Let_def)

lemma run_cleanup_eq:
  assumes "editorRef s = Some eid" "key_listeners s = [(lid, k, cb)]" "eid < length (editors s)"
    "effect_cleanup s = Some lid"
  shows "run_cleanup s =
     s\<lparr>key_listeners := [],
        editors := (editors s)[eid := (editors s ! eid)\<lparr>widget_disposed := True,
           model_disposed := (dispose_destroys_model (policy s) \<or> model_disposed (editors s ! eid))\<rparr>],
        dom_widget := (if dom_widget s = Some eid then None else dom_widget s),
        trace := trace s @ [KeyListenerRemoved lid, EditorDisposed eid] @
                 (if dispose_destroys_model (policy s) then [ModelDisposed eid] else []) @
                 [EditorRefCleared],
        editorRef := None,
        effect_cleanup := None\<rparr>"
  by (simp add: run_cleanup_def assms(4) cleanup_eq[OF assms(1,2,3)])

lemma run_cleanup_none: "effect_cleanup s = None \<Longrightarrow> run_cleanup s = s"
  by (simp add: run_cleanup_def)

text \<open>The state that unmounting a session leaves.\<close>

lemma wf_torn_down:
  assumes "wf s" "editorRef s = Some eid"
  shows "wf (s\<lparr>key_listeners := [],
        editors := (editors s)[eid := (editors s ! eid)\<lparr>widget_disposed := True,
           model_disposed := (dispose_destroys_model (policy s) \<or> model_disposed (editors s ! eid))\<rparr>],
        dom_widget := None, trace := t, mounted := False, containerRef := False,
        editorRef := None, effect_cleanup := None, sync_pending := False\<rparr>)"
proof -
  note f = wf_session[OF assms]
  have d: "\<forall>i<length (editors s). i \<noteq> eid \<longrightarrow> widget_disposed (editors s ! i)"
    using wf_others_disposed[OF assms(1)] f by simp
  show ?thesis
    using d f wf_model_disposed[OF assms(1)] wf_uri[OF assms(1)]
    by (simp add: wf_def nth_list_update)
qed

lemma unmount_session:
  assumes "wf s" "editorRef s = Some eid"
  shows "unmount s =
     s\<lparr>key_listeners := [],
        editors := (editors s)[eid := (editors s ! eid)\<lparr>widget_disposed := True,
           model_disposed := (dispose_destroys_model (policy s) \<or> model_disposed (editors s ! eid))\<rparr>],
        dom_widget := None,
        trace := trace s @ [KeyListenerRemoved eid, EditorDisposed eid] @
                 (if dispose_destroys_model (policy s) then [ModelDisposed eid] else []) @
                 [EditorRefCleared],
        mounted := False, containerRef := False,
        editorRef := None, effect_cleanup := None, sync_pending := False\<rparr>"
proof -
  note f = wf_session[OF assms]
  from f have e: "key_listeners s = [(eid, mount_count s, onSave (cur_props s))]"
    "eid < length (editors s)" "effect_cleanup s = Some eid" by auto
  show ?thesis
    using f by (simp add: unmount_def run_cleanup_eq[OF assms(2) e])
qed

lemma unmount_no_session:
  assumes "wf s" "editorRef s = None"
  shows "unmount s = s\<lparr>mounted := False, containerRef := False, sync_pending := False\<rparr>"
  using wf_no_session[OF assms] by (simp add: unmount_def run_cleanup_none)

lemma wf_unmount:
  assumes "wf s" "mounted s" shows "wf (unmount s)"
proof (cases "editorRef s")
  case None
  show ?thesis
    unfolding unmount_no_session[OF assms(1) None]
    using assms(1) None by (auto simp: wf_def)
next
  case (Some eid)
  show ?thesis
    unfolding unmount_session[OF assms(1) Some]
    by (rule wf_torn_down[OF assms(1) Some])
qed

lemma listener_keydown_no_session:
  assumes "editorRef s = None"
  shows "listener_keydown l e s = (s, False) \<or>
         listener_keydown l e s = (s\<lparr>trace := trace s @ [DefaultPrevented]\<rparr>, True)"
  using assms by (simp add: listener_keydown_def handleKeyDown_def emit_def Let_def split: option.splits)

lemma run_listeners_no_session:
  "editorRef s = None \<Longrightarrow>
   \<exists>n b. run_listeners ls e s = (s\<lparr>trace := trace s @ replicate n DefaultPrevented\<rparr>, b)"
proof (induction ls arbitrary: s)
  case Nil
  show ?case by (intro exI[of _ 0] exI[of _ False]) simp
next
  case (Cons l ls)
  from listener_keydown_no_session[OF Cons.prems, of l e]
  show ?case
  proof
    assume a: "listener_keydown l e s = (s, False)"
    from Cons.IH[OF Cons.prems] obtain n b where
      "run_listeners ls e s = (s\<lparr>trace := trace s @ replicate n DefaultPrevented\<rparr>, b)" by blast
    then have "run_listeners (l # ls) e s = (s\<lparr>trace := trace s @ replicate n DefaultPrevented\<rparr>, b)"
      by (simp add: a)
    then show ?thesis by blast
  next
    let ?s1 = "s\<lparr>trace := trace s @ [DefaultPrevented]\<rparr>"
    assume a: "listener_keydown l e s = (?s1, True)"
    have "editorRef ?s1 = None" using Cons.prems by simp
    from Cons.IH[OF this] obtain n b where
      r: "run_listeners ls e ?s1 = (?s1\<lparr>trace := trace ?s1 @ replicate n DefaultPrevented\<rparr>, b)"
      by blast
    have "run_listeners (l # ls) e s = (s\<lparr>trace := trace s @ replicate (Suc n) DefaultPrevented\<rparr>, True)"
      by (simp add: a r)
    then show ?thesis by blast
  qed
qed

lemma keydown_no_session:
  assumes "wf s" "editorRef s = None"
  shows "\<exists>n. keydown e s = s\<lparr>trace := trace s @ replicate n DefaultPrevented\<rparr>"
proof -
  from run_listeners_no_session[OF assms(2), of "key_listeners s" e] obtain n b where
    r: "run_listeners (key_listeners s) e s = (s\<lparr>trace := trace s @ replicate n DefaultPrevented\<rparr>, b)"
    by blast
  from wf_no_session[OF assms] have d: "dom_widget s = None" by simp
  have "keydown e s = s\<lparr>trace := trace s @ replicate n DefaultPrevented\<rparr>"
    by (simp add: keydown_def r widget_keydown_def d)
  then show ?thesis by blast
qed

lemma keydown_unmounted:
  assumes "\<not> mounted s" "dom_widget s = None"
  shows "keydown e s = s"
proof -
  have "run_listeners ls e s = (s, False)" for ls
    using assms(1) by (induction ls) (simp_all add: listener_keydown_def)
  then show ?thesis by (simp add: keydown_def widget_keydown_def assms(2))
qed

lemma keydown_session:
  assumes "wf s" "editorRef s = Some eid"
  shows "keydown e s =
     (if (metaKey e \<or> ctrlKey e) \<and> key e = ''s'' \<and> target_in_container e then
        s\<lparr>trace := trace s @ DefaultPrevented #
               (case onSave (cur_props s) of None \<Rightarrow> []
                | Some f \<Rightarrow> [OnSave f (buffer (editors s ! eid))])\<rparr>
      else if target_in_container e \<and> widget_save_chord e then
        s\<lparr>trace := trace s @
               (case onSave (cur_props s) of None \<Rightarrow> []
                | Some f \<Rightarrow> [OnSave f (buffer (editors s ! eid))])\<rparr>
      else s)"
proof -
  from wf_session[OF assms]
  have f: "key_listeners s = [(eid, mount_count s, onSave (cur_props s))]" "eid < length (editors s)"
    "dom_widget s = Some eid" "containerRef s" "\<not> widget_disposed (editors s ! eid)"
    "save_command (editors s ! eid) = onSave (cur_props s)" "mounted s" by auto
  show ?thesis
    by (cases "onSave (cur_props s)")
       (simp_all add: keydown_def listener_keydown_def handleKeyDown_def widget_keydown_def
          save_command_run_def value_of_def getValue_def emit_def f assms(2))
qed

lemma wf_keydown: assumes "wf s" shows "wf (keydown e s)"
proof (cases "editorRef s")
  case None
  from keydown_no_session[OF assms None, of e] assms show ?thesis by auto
next
  case (Some eid)
  from keydown_session[OF assms Some, of e] assms show ?thesis by simp
qed

lemma user_edits_no_session: "wf s \<Longrightarrow> editorRef s = None \<Longrightarrow> user_edits t s = s"
  using wf_no_session[of s] by (simp add: user_edits_def)

lemma user_edits_session:
  assumes "wf s" "editorRef s = Some eid"
  shows "user_edits t s =
     s\<lparr>editors := (editors s)[eid := (editors s ! eid)\<lparr>buffer := t\<rparr>],
       trace := trace s @ (case change_listener (editors s ! eid) of
                            None \<Rightarrow> []
                          | Some cb \<Rightarrow> [OnCodeChange cb t])\<rparr>"
proof -
  from wf_session[OF assms]
  have f: "eid < length (editors s)" "dom_widget s = Some eid"
    "\<not> widget_disposed (editors s ! eid)" by auto
  show ?thesis by (simp add: user_edits_def f apply_edit_eq)
qed

lemma wf_user_edits: assumes "wf s" shows "wf (user_edits t s)"
proof (cases "editorRef s")
  case None
  then show ?thesis using assms by (simp add: user_edits_no_session)
next
  case (Some eid)
  from wf_buffer_update[OF assms Some, of t] show ?thesis
    by (simp add: user_edits_session[OF assms Some])
qed

lemma timer_fires_live:
  assumes "wf s" "editorRef s = Some eid" "eid \<in> set (timers s)"
  shows "timer_fires eid typed undone s =
     s\<lparr>timers := remove1 eid (timers s),
       editors := (editors s)[eid := (editors s ! eid)\<lparr>buffer := undone\<rparr>],
       trace := trace s @ (case change_listener (editors s ! eid) of
                            None \<Rightarrow> []
                          | Some cb \<Rightarrow> [OnCodeChange cb typed, OnCodeChange cb undone])\<rparr>"
proof -
  from wf_session[OF assms(1,2)]
  have f: "eid < length (editors s)" "\<not> widget_disposed (editors s ! eid)" by auto
  show ?thesis using f by (simp add: timer_fires_def assms(3) nudge_eq)
qed

lemma timer_fires_stale:
  assumes "wf s" "editorRef s \<noteq> Some n"
  shows "\<exists>tm. timer_fires n typed undone s = s\<lparr>timers := tm\<rparr>"
proof -
  have "dom_widget s \<noteq> Some n"
    using assms wf_session[of s] wf_no_session[of s] by (cases "editorRef s") auto
  then have "\<not> (n < length (editors s) \<and> \<not> widget_disposed (editors s ! n))"
    using wf_others_disposed[OF assms(1), of n] by auto
  then have "nudge n typed undone (s\<lparr>timers := remove1 n (timers s)\<rparr>) = s\<lparr>timers := remove1 n (timers s)\<rparr>"
    by (intro nudge_disposed) simp
  then show ?thesis
    by (auto simp: timer_fires_def intro: exI[of _ "timers s"])
qed

lemma wf_timer_fires: assumes "wf s" shows "wf (timer_fires n typed undone s)"
proof (cases "editorRef s = Some n \<and> n \<in> set (timers s)")
  case True
  have "wf (s\<lparr>timers := remove1 n (timers s)\<rparr>)" using assms by simp
  from wf_buffer_update[OF this, of n undone] True show ?thesis
    by (simp add: timer_fires_live[OF assms])
next
  case False
  show ?thesis
  proof (cases "editorRef s = Some n")
    case True
    with False show ?thesis using assms by (simp add: timer_fires_def)
  next
    case False
    from timer_fires_stale[OF assms False, of typed undone] assms show ?thesis by auto
  qed
qed

text \<open>The pending effect of the second render.\<close>

lemma flush_idle: "\<not> (mounted s \<and> sync_pending s) \<Longrightarrow> flush_effects s = s"
  by (auto simp: flush_effects_def)

lemma flush_no_session: "wf s \<Longrightarrow> editorRef s = None \<Longrightarrow> flush_effects s = s"
  using wf_no_session[of s] by (simp add: flush_effects_def)

lemma flush_session:
  assumes "wf s" "editorRef s = Some eid" "sync_pending s"
  shows "flush_effects s =
     (if buffer (editors s ! eid) \<noteq> initialCode (cur_props s)
      then s\<lparr>editors := (editors s)[eid := (editors s ! eid)\<lparr>buffer := model_text (initialCode (cur_props s))\<rparr>],
             trace := trace s @ ValueSet eid (initialCode (cur_props s)) #
                  (case change_listener (editors s ! eid) of
                     None \<Rightarrow> []
                   | Some cb \<Rightarrow> [OnCodeChange cb (model_text (initialCode (cur_props s)))]),
             sync_pending := False\<rparr>
      else s\<lparr>sync_pending := False\<rparr>)"
proof -
  from wf_session[OF assms(1,2)]
  have f: "eid < length (editors s)" "\<not> widget_disposed (editors s ! eid)" "mounted s" by auto
  show ?thesis
    using f assms(3) by (simp add: flush_effects_def sync_effect_eq[OF assms(2) f(1,2)] setValue_eq)
qed

lemma wf_flush: assumes "wf s" shows "wf (flush_effects s)"
proof (cases "editorRef s")
  case None
  then show ?thesis using assms by (simp add: flush_no_session)
next
  case (Some eid)
  show ?thesis
  proof (cases "sync_pending s")
    case False
    then show ?thesis using assms by (simp add: flush_idle)
  next
    case True
    have 1: "wf (s\<lparr>sync_pending := False\<rparr>)"
      using wf_pending_update[OF assms, of False] Some by simp
    have 2: "wf (s\<lparr>editors := (editors s)[eid := (editors s ! eid)\<lparr>buffer := model_text (initialCode (cur_props s))\<rparr>],
        sync_pending := False\<rparr>)"
      using wf_pending_update[OF wf_buffer_update[OF assms Some, of "model_text (initialCode (cur_props s))"], of False]
        Some by simp
    show ?thesis
      unfolding flush_session[OF assms Some True] using 1 2
      by (simp add: wf_def split: option.splits)
  qed
qed

lemma flush_keeps:
  "editorRef (flush_effects s) = editorRef s \<and> cur_props (flush_effects s) = cur_props s
   \<and> mounted (flush_effects s) = mounted s \<and> isReady (flush_effects s) = isReady s
   \<and> policy (flush_effects s) = policy s \<and> length (editors (flush_effects s)) = length (editors s)
   \<and> mount_count (flush_effects s) = mount_count s"
  by (simp add: flush_effects_def sync_effect_def setValue_def content_changed_def emit_def
        split: option.splits)

lemma flush_flush: "flush_effects (flush_effects s) = flush_effects s"
  by (simp add: flush_effects_def sync_effect_def setValue_def content_changed_def emit_def
        split: option.splits)

lemma rerender_flush: "rerender p s = rerender p (flush_effects s)"
  by (simp add: rerender_def flush_flush)

lemma flush_not_pending: "\<not> sync_pending (flush_effects s) \<or> \<not> mounted (flush_effects s)"
  by (auto simp: flush_effects_def sync_effect_def setValue_def content_changed_def emit_def
        split: option.splits)

text \<open>Rendering again, by the state of the session and by what the props change.\<close>

lemma rerender_no_session:
  assumes "wf s" "mounted s" "editorRef s = None"
  shows "rerender p s =
     (if onSave p \<noteq> onSave (cur_props s) then
        s\<lparr>cur_props := p,
          key_listeners := key_listeners s @ [(length (editors s), mount_count s, onSave p)],
          trace := trace s @ [KeyListenerAdded (length (editors s)), LanguageServiceConfigured],
          uncaught := uncaught s @ [ModelAlreadyExists]\<rparr>
      else s\<lparr>cur_props := p\<rparr>)"
proof -
  note n = wf_no_session[OF assms(1,3)]
  from n assms(2) have b: "\<not> dispose_destroys_model (policy s)" "editors s \<noteq> []" by auto
  have fl: "flush_effects s = s" by (rule flush_no_session[OF assms(1,3)])
  let ?s0 = "s\<lparr>cur_props := p\<rparr>"
  have rc: "run_cleanup ?s0 = ?s0" using n by (simp add: run_cleanup_none)
  have u: "uri_in_use main_uri ?s0"
    using uri_in_use_iff[OF assms(1)] n b by (simp add: uri_in_use_def)
  have c: "containerRef ?s0" using wf_container[OF assms(1)] assms(2) by simp
  show ?thesis
    by (simp add: rerender_def Let_def fl rc run_main_effect_throws[OF c u] sync_effect_no_session
          assms(3))
qed

lemma rerender_same_onSave:
  assumes "wf s" "editorRef s = Some eid" "\<not> sync_pending s" "onSave p = onSave (cur_props s)"
  shows "rerender p s =
     (if initialCode p \<noteq> initialCode (cur_props s) \<and> buffer (editors s ! eid) \<noteq> initialCode p
      then s\<lparr>cur_props := p,
             editors := (editors s)[eid := (editors s ! eid)\<lparr>buffer := model_text (initialCode p)\<rparr>],
             trace := trace s @ ValueSet eid (initialCode p) #
                  (case change_listener (editors s ! eid) of
                     None \<Rightarrow> []
                   | Some cb \<Rightarrow> [OnCodeChange cb (model_text (initialCode p))])\<rparr>
      else s\<lparr>cur_props := p\<rparr>)"
proof -
  from wf_session[OF assms(1,2)]
  have f: "eid < length (editors s)" "\<not> widget_disposed (editors s ! eid)" "isReady s" by auto
  have fl: "flush_effects s = s" using assms(3) by (simp add: flush_idle)
  have "sync_effect p True (s\<lparr>cur_props := p\<rparr>) =
     (if buffer (editors s ! eid) \<noteq> initialCode p then setValue eid (initialCode p) (s\<lparr>cur_props := p\<rparr>)
      else s\<lparr>cur_props := p\<rparr>)"
    using sync_effect_eq[of "s\<lparr>cur_props := p\<rparr>" eid p] assms(2) f by simp
  then show ?thesis
    using f by (simp add: rerender_def Let_def fl assms(4) setValue_eq)
qed

lemma sync_effect_isReady [simp]: "isReady (sync_effect p r s) = isReady s"
  by (simp add: sync_effect_def setValue_def content_changed_def emit_def split: option.splits)

lemma editor_keep_model:
  "\<not> model_disposed ed \<Longrightarrow>
   ed\<lparr>widget_disposed := True, model_disposed := False\<rparr> = ed\<lparr>widget_disposed := True\<rparr>"
  by (cases ed) simp

lemma rerender_new_onSave_throws:
  assumes "wf s" "editorRef s = Some eid" "\<not> sync_pending s" "onSave p \<noteq> onSave (cur_props s)"
    "\<not> dispose_destroys_model (policy s)"
  shows "rerender p s =
     s\<lparr>cur_props := p,
       key_listeners := [(length (editors s), mount_count s, onSave p)],
       editors := (editors s)[eid := (editors s ! eid)\<lparr>widget_disposed := True\<rparr>],
       dom_widget := None,
       trace := trace s @ [KeyListenerRemoved eid, EditorDisposed eid, EditorRefCleared,
                  KeyListenerAdded (length (editors s)), LanguageServiceConfigured],
       uncaught := [ModelAlreadyExists],
       editorRef := None,
       effect_cleanup := None\<rparr>"
proof -
  note f = wf_session[OF assms(1,2)]
  from f have e: "key_listeners s = [(eid, mount_count s, onSave (cur_props s))]"
    "eid < length (editors s)" "effect_cleanup s = Some eid" by auto
  have fl: "flush_effects s = s" using assms(3) by (simp add: flush_idle)
  let ?s0 = "s\<lparr>cur_props := p\<rparr>"
  have md: "\<not> model_disposed (editors s ! eid)"
    using wf_model_disposed[OF assms(1) e(2)] assms(5) by simp
  have rc: "run_cleanup ?s0 = ?s0\<lparr>key_listeners := [],
        editors := (editors s)[eid := (editors s ! eid)\<lparr>widget_disposed := True\<rparr>],
        dom_widget := None,
        trace := trace s @ [KeyListenerRemoved eid, EditorDisposed eid, EditorRefCleared],
        editorRef := None,
        effect_cleanup := None\<rparr>"
    using run_cleanup_eq[of ?s0 eid eid "mount_count s" "onSave (cur_props s)"] assms(2,5) e f
    by (simp add: editor_keep_model[OF md])
  have c: "containerRef (run_cleanup ?s0)" using f by (simp add: rc)
  have u: "uri_in_use main_uri (run_cleanup ?s0)"
    using e(2) md wf_uri[OF assms(1) e(2)]
    by (auto simp: rc uri_in_use_def list_ex_iff set_conv_nth nth_list_update
          intro!: exI[of _ eid])
  have "rerender p s = fst (run_main_effect p (run_cleanup ?s0))"
    using assms(4) by (simp add: rerender_def Let_def fl run_main_effect_throws[OF c u])
  also have "\<dots> = (run_cleanup ?s0)
      \<lparr>key_listeners := key_listeners (run_cleanup ?s0) @
          [(length (editors (run_cleanup ?s0)), mount_count (run_cleanup ?s0), onSave p)],
        trace := trace (run_cleanup ?s0) @
          [KeyListenerAdded (length (editors (run_cleanup ?s0))), LanguageServiceConfigured],
        uncaught := uncaught (run_cleanup ?s0) @ [ModelAlreadyExists]\<rparr>"
    by (simp add: run_main_effect_throws[OF c u])
  also have "\<dots> = s\<lparr>cur_props := p,
       key_listeners := [(length (editors s), mount_count s, onSave p)],
       editors := (editors s)[eid := (editors s ! eid)\<lparr>widget_disposed := True\<rparr>],
       dom_widget := None,
       trace := trace s @ [KeyListenerRemoved eid, EditorDisposed eid, EditorRefCleared,
                  KeyListenerAdded (length (editors s)), LanguageServiceConfigured],
       uncaught := [ModelAlreadyExists],
       editorRef := None,
       effect_cleanup := None\<rparr>"
    unfolding rc using f by (cases s) simp
  finally show ?thesis .
qed

lemma rerender_new_onSave_ok:
  assumes "wf s" "editorRef s = Some eid" "\<not> sync_pending s" "onSave p \<noteq> onSave (cur_props s)"
    "dispose_destroys_model (policy s)"
  shows "\<exists>b T. rerender p s =
     s\<lparr>cur_props := p,
       key_listeners := [(length (editors s), mount_count s, onSave p)],
       timers := timers s @ [length (editors s)],
       editors := (editors s)[eid := (editors s ! eid)\<lparr>widget_disposed := True,
           model_disposed := True\<rparr>] @ [(new_editor p)\<lparr>buffer := b\<rparr>],
       dom_widget := Some (length (editors s)),
       trace := trace s @ [KeyListenerRemoved eid, EditorDisposed eid, ModelDisposed eid,
                  EditorRefCleared, KeyListenerAdded (length (editors s)),
                  LanguageServiceConfigured,
                  ModelCreated (length (editors s)) (initialCode p),
                  EditorCreated (length (editors s)), CompletionInstalled,
                  NudgeScheduled (length (editors s))] @ T,
       editorRef := Some (length (editors s)),
       effect_cleanup := Some (length (editors s))\<rparr>
     \<and> b = model_text (initialCode p)
     \<and> (T = [] \<or> T = ValueSet (length (editors s)) (initialCode p) #
            (case onCodeChange p of None \<Rightarrow> []
             | Some cb \<Rightarrow> [OnCodeChange cb (model_text (initialCode p))]))"
proof -
  note f = wf_session[OF assms(1,2)]
  from f have e: "key_listeners s = [(eid, mount_count s, onSave (cur_props s))]"
    "eid < length (editors s)" "effect_cleanup s = Some eid" by auto
  have fl: "flush_effects s = s" using assms(3) by (simp add: flush_idle)
  let ?s0 = "s\<lparr>cur_props := p\<rparr>"
  let ?E = "(editors s)[eid := (editors s ! eid)\<lparr>widget_disposed := True, model_disposed := True\<rparr>]"
  let ?n = "length (editors s)"
  have rc: "run_cleanup ?s0 = ?s0\<lparr>key_listeners := [], editors := ?E,
        dom_widget := None,
        trace := trace s @ [KeyListenerRemoved eid, EditorDisposed eid, ModelDisposed eid,
                   EditorRefCleared],
        editorRef := None,
        effect_cleanup := None\<rparr>"
    using run_cleanup_eq[of ?s0 eid eid "mount_count s" "onSave (cur_props s)"] assms(2,5) e f
    by simp
  have c: "containerRef (run_cleanup ?s0)" using f by (simp add: rc)
  have d: "\<forall>i<length (editors s). i \<noteq> eid \<longrightarrow> widget_disposed (editors s ! i)"
    using wf_others_disposed[OF assms(1)] f by simp
  have "\<forall>i<length ?E. model_disposed (?E ! i)"
    using d wf_model_disposed[OF assms(1)] assms(5) e(2) by (auto simp: nth_list_update)
  then have u: "\<not> uri_in_use main_uri (run_cleanup ?s0)"
    by (auto simp: rc uri_in_use_def list_ex_iff in_set_conv_nth)
  let ?s1 = "s\<lparr>cur_props := p,
       key_listeners := [(?n, mount_count s, onSave p)],
       timers := timers s @ [?n],
       editors := ?E @ [new_editor p],
       dom_widget := Some ?n,
       trace := trace s @ [KeyListenerRemoved eid, EditorDisposed eid, ModelDisposed eid,
                  EditorRefCleared, KeyListenerAdded ?n, LanguageServiceConfigured,
                  ModelCreated ?n (initialCode p), EditorCreated ?n, CompletionInstalled,
                  NudgeScheduled ?n],
       editorRef := Some ?n,
       effect_cleanup := Some ?n\<rparr>"
  have "fst (run_main_effect p (run_cleanup ?s0)) = ?s1"
    by (subst run_main_effect_ok[OF c u], unfold rc, insert f, cases s) simp
  moreover have "snd (run_main_effect p (run_cleanup ?s0)) = False"
    by (subst run_main_effect_ok[OF c u]) simp
  ultimately have m: "run_main_effect p (run_cleanup ?s0) = (?s1, False)"
    by (simp add: prod_eq_iff)
  have r: "rerender p s =
      (if initialCode p \<noteq> initialCode (cur_props s) then sync_effect p True ?s1 else ?s1)"
    using assms(4) f by (simp add: rerender_def Let_def fl m)
  have sy: "sync_effect p True ?s1 =
      (if model_text (initialCode p) \<noteq> initialCode p then setValue ?n (initialCode p) ?s1 else ?s1)"
    by (simp add: sync_effect_def value_of_def getValue_def nth_append new_editor_def)
  have sv: "setValue ?n (initialCode p) ?s1 =
      ?s1\<lparr>editors := ?E @ [(new_editor p)\<lparr>buffer := model_text (initialCode p)\<rparr>],
          trace := trace ?s1 @ ValueSet ?n (initialCode p) #
            (case onCodeChange p of None \<Rightarrow> []
             | Some cb \<Rightarrow> [OnCodeChange cb (model_text (initialCode p))])\<rparr>"
    by (simp add: setValue_def content_changed_def emit_def getValue_def nth_append
          list_update_append new_editor_def split: option.splits)
  have nb: "(new_editor p)\<lparr>buffer := model_text (initialCode p)\<rparr> = new_editor p"
    by (simp add: new_editor_def)
  show ?thesis
  proof (cases "initialCode p \<noteq> initialCode (cur_props s) \<and> model_text (initialCode p) \<noteq> initialCode p")
    case True
    show ?thesis
      by (intro exI[of _ "model_text (initialCode p)"]
            exI[of _ "ValueSet ?n (initialCode p) #
            (case onCodeChange p of None \<Rightarrow> []
             | Some cb \<Rightarrow> [OnCodeChange cb (model_text (initialCode p))])"])
         (simp add: r sy sv True nb)
  next
    case False
    then have "rerender p s = ?s1" by (auto simp: r sy)
    then show ?thesis
      by (intro exI[of _ "model_text (initialCode p)"] exI[of _ "[]"]) (simp add: nb)
  qed
qed

lemma wf_rerender_flushed:
  assumes "wf s" "mounted s" "\<not> sync_pending s"
  shows "wf (rerender p s)"
proof (cases "editorRef s")
  case None
  note n = wf_no_session[OF assms(1) None]
  show ?thesis
    unfolding rerender_no_session[OF assms(1,2) None]
    using assms(1,2) None n by (auto simp: wf_def)
next
  case (Some eid)
  note f = wf_session[OF assms(1) Some]
  have d: "\<forall>i<length (editors s). i \<noteq> eid \<longrightarrow> widget_disposed (editors s ! i)"
    using wf_others_disposed[OF assms(1)] f by simp
  note md = wf_model_disposed[OF assms(1)] and ur = wf_uri[OF assms(1)]
  show ?thesis
  proof (cases "onSave p = onSave (cur_props s)")
    case True
    have 1: "wf (s\<lparr>cur_props := p\<rparr>)" by (rule wf_props_update[OF assms(1) True])
    have 2: "wf (s\<lparr>cur_props := p, editors := (editors s)[eid := (editors s ! eid)\<lparr>buffer := model_text (initialCode p)\<rparr>]\<rparr>)"
      using wf_buffer_update[OF 1, of eid "model_text (initialCode p)"] Some by simp
    show ?thesis
      using 1 2 by (simp add: rerender_same_onSave[OF assms(1) Some assms(3) True])
  next
    case False
    show ?thesis
    proof (cases "dispose_destroys_model (policy s)")
      case pol: False
      show ?thesis
        unfolding rerender_new_onSave_throws[OF assms(1) Some assms(3) False pol]
        using d f md ur pol assms(3) by (auto simp: wf_def nth_list_update)
    next
      case pol: True
      from rerender_new_onSave_ok[OF assms(1) Some assms(3) False pol] obtain b T where
        r: "rerender p s =
     s\<lparr>cur_props := p,
       key_listeners := [(length (editors s), mount_count s, onSave p)],
       timers := timers s @ [length (editors s)],
       editors := (editors s)[eid := (editors s ! eid)\<lparr>widget_disposed := True,
           model_disposed := True\<rparr>] @ [(new_editor p)\<lparr>buffer := b\<rparr>],
       dom_widget := Some (length (editors s)),
       trace := trace s @ [KeyListenerRemoved eid, EditorDisposed eid, ModelDisposed eid,
                  EditorRefCleared, KeyListenerAdded (length (editors s)),
                  LanguageServiceConfigured,
                  ModelCreated (length (editors s)) (initialCode p),
                  EditorCreated (length (editors s)), CompletionInstalled,
                  NudgeScheduled (length (editors s))] @ T,
       editorRef := Some (length (editors s)),
       effect_cleanup := Some (length (editors s))\<rparr>" by blast
      show ?thesis
        unfolding r using d f md ur pol
        by (auto simp: wf_def nth_append nth_list_update new_editor_def)
    qed
  qed
qed

lemma wf_rerender: assumes "wf s" "mounted s" shows "wf (rerender p s)"
proof -
  have w: "wf (flush_effects s)" by (rule wf_flush[OF assms(1)])
  have m: "mounted (flush_effects s)" using flush_keeps[of s] assms(2) by simp
  have n: "\<not> sync_pending (flush_effects s)" using flush_not_pending[of s] m by simp
  show ?thesis
    using wf_rerender_flushed[OF w m n] by (subst rerender_flush) simp
qed

lemma wf_step: "wf s \<Longrightarrow> wf (step s i)"
  by (cases i)
     (simp_all add: wf_mount wf_rerender wf_unmount wf_keydown wf_user_edits wf_timer_fires wf_flush)

lemma run_Nil: "run s [] = s"
  by (simp add: run_def)

lemma run_Cons: "run s (i # ins) = run (step s i) ins"
  by (simp add: run_def)

lemma run_append: "run s (xs @ ys) = run (run s xs) ys"
  by (simp add: run_def)

lemma run_snoc: "run s (xs @ [x]) = step (run s xs) x"
  by (simp add: run_def)

lemma wf_run_from: "wf s \<Longrightarrow> wf (run s ins)"
  by (induction ins arbitrary: s) (simp_all add: wf_step run_Nil run_Cons)

lemma wf_run: "wf (run (init pol) ins)"
  by (rule wf_run_from[OF wf_init])

lemma ready_live:
  assumes "wf s" "ready s"
  obtains eid where "editorRef s = Some eid" "eid < length (editors s)"
    "\<not> widget_disposed (editors s ! eid)" "live_text s = buffer (editors s ! eid)" "mounted s"
proof -
  from assms(2) obtain eid where e: "editorRef s = Some eid" by (auto simp: ready_def)
  note f = wf_session[OF assms(1) e]
  from f e have "live_text s = buffer (editors s ! eid)"
    by (simp add: live_text_def value_of_def getValue_def)
  with e f that show thesis by blast
qed


text \<open>
  A cleanup closure exists only for an effect run that created its editor, and the listener
  of that run is then the only one on \<^verbatim>\<open>document\<close>: removing the listeners that bear the
  number of the run removes that one function, as \<^verbatim>\<open>removeEventListener\<close> does.
\<close>

lemma cleanup_listener_unique:
  assumes "s = run (init pol) ins" "effect_cleanup s = Some lid"
  shows "key_listeners s = [(lid, mount_count s, onSave (cur_props s))]"
proof (cases "editorRef s")
  case None
  have "wf s" by (simp add: assms(1) wf_run)
  from wf_no_session[OF this None] assms(2) show ?thesis by simp
next
  case (Some eid)
  have "wf s" by (simp add: assms(1) wf_run)
  from wf_session[OF this Some] assms(2) show ?thesis by simp
qed
section \<open>The claims\<close>

text \<open>
  Claim C2. In a Ready session whose \<^verbatim>\<open>onSave\<close> prop is a callback, a save gesture whose
  target lies inside the container calls that callback exactly once, with the live text of
  the document, and leaves every editor as it was. The capturing listener stops the
  propagation, so the widget's command does not call it a second time; a gesture that only
  the widget recognises reaches the command and is the single call.
\<close>

theorem save_inside_calls_onSave_once:
  assumes "s = run (init pol) ins" and "ready s" and "onSave (cur_props s) = Some f"
    and "target_in_container e" and "save_gesture e"
  shows "host_calls (trace (step s (KeyDown e))) = host_calls (trace s) @ [OnSave f (live_text s)]
     \<and> editors (step s (KeyDown e)) = editors s
     \<and> live_text (step s (KeyDown e)) = live_text s"
proof -
  have w: "wf s" by (simp add: assms(1) wf_run)
  from ready_live[OF w assms(2)] obtain eid where e: "editorRef s = Some eid"
    "live_text s = buffer (editors s ! eid)" by blast
  show ?thesis
    using assms(3,4,5) e(2)
    by (auto simp: keydown_session[OF w e(1)] host_calls_def save_gesture_def live_text_def e(1)
          value_of_def)
qed

theorem save_inside_calls_onSave_once_witness:
  "host_calls (trace (step (run (init monaco_policy) [Mount demo_props]) (KeyDown (ctrl_s True)))) =
     host_calls (trace (run (init monaco_policy) [Mount demo_props])) @ [OnSave 2 ''ab'']"
proof -
  let ?s = "run (init monaco_policy) [Mount demo_props]"
  have "ready ?s" "onSave (cur_props ?s) = Some 2" "target_in_container (ctrl_s True)"
    "save_gesture (ctrl_s True)" "live_text ?s = ''ab''"
    by code_simp+
  with save_inside_calls_onSave_once[OF refl, of monaco_policy "[Mount demo_props]" 2 "ctrl_s True"]
  show ?thesis by simp
qed

lemma run_listeners_outside:
  "\<not> target_in_container e \<Longrightarrow> run_listeners ls e s = (s, False)"
  by (induction ls) (simp_all add: listener_keydown_def handleKeyDown_def)

text \<open>
  Claim C8. A key event whose target lies outside the container changes nothing, whatever
  keys it carries: no listener acts on it and the widget does not see it, so
  \<^verbatim>\<open>onSave\<close> is not called.
\<close>

theorem save_outside_is_ignored:
  assumes "\<not> target_in_container e"
  shows "step s (KeyDown e) = s"
  using assms by (simp add: keydown_def run_listeners_outside widget_keydown_def)

theorem save_outside_is_ignored_witness:
  "\<not> target_in_container (ctrl_s False) \<and> save_gesture (ctrl_s False) \<and>
   ready (run (init monaco_policy) [Mount demo_props]) \<and>
   step (run (init monaco_policy) [Mount demo_props]) (KeyDown (ctrl_s False)) =
     run (init monaco_policy) [Mount demo_props]"
proof -
  have h: "\<not> target_in_container (ctrl_s False)" by (simp add: ctrl_s_def)
  have "save_gesture (ctrl_s False)" "ready (run (init monaco_policy) [Mount demo_props])"
    by code_simp+
  with h save_outside_is_ignored[OF h, of "run (init monaco_policy) [Mount demo_props]"]
  show ?thesis by simp
qed




lemma removed_listener_absent:
  "lid \<in> fst ` set (filter (\<lambda>l. fst l \<noteq> lid) ls) \<longleftrightarrow> False"
  by auto

lemma removeKeyListener_idem: "removeKeyListener lid (removeKeyListener lid s) = removeKeyListener lid s"
  by (simp add: removeKeyListener_def emit_def removed_listener_absent del: set_filter)

lemma removeKeyListener_editorRef [simp]: "editorRef (removeKeyListener lid s) = editorRef s"
  by (simp add: removeKeyListener_def emit_def)

lemma cleanup_total:
  "\<exists>s'. cleanup lid s = Inr s' \<and> editorRef s' = None \<and> removeKeyListener lid s' = s'"
proof (cases "editorRef s")
  case None
  then show ?thesis by (simp add: cleanup_def removeKeyListener_idem)
next
  case (Some eid)
  then show ?thesis
    by (simp add: cleanup_def call_dispose_def dispose_editor_def emit_def Let_def
          removeKeyListener_def removed_listener_absent del: set_filter)
qed

text \<open>
  Claim C9. The cleanup closure never throws: the call of \<^verbatim>\<open>dispose\<close> is guarded, so a null
  \<^verbatim>\<open>editorRef\<close> is not dereferenced. Without a session it does nothing but drop its own
  key listener, and nothing at all when the listener is gone. Running it a second time
  returns the state the first run produced. When the main effect returned early there is no
  cleanup, and unmounting in the initial state changes nothing.
\<close>

theorem teardown_is_safe_and_idempotent:
  "(\<exists>s'. cleanup lid s = Inr s' \<and> cleanup lid s' = Inr s'
        \<and> (editorRef s = None \<longrightarrow> s' = removeKeyListener lid s))
   \<and> (editorRef s = None \<and> lid \<notin> fst ` set (key_listeners s) \<longrightarrow> cleanup lid s = Inr s)
   \<and> uncaught (run_cleanup s) = uncaught s
   \<and> run_cleanup (run_cleanup s) = run_cleanup s
   \<and> (\<not> containerRef s \<longrightarrow> run_cleanup (main_effect p s) = main_effect p s)
   \<and> step (init pol) Unmount = init pol
   \<and> step (step s Unmount) Unmount = step s Unmount"
proof -
  obtain s' where s': "cleanup lid s = Inr s'" "editorRef s' = None" "removeKeyListener lid s' = s'"
    using cleanup_total by blast
  have 1: "cleanup lid s' = Inr s'" using s'(2,3) by (simp add: cleanup_def)
  have 2: "editorRef s = None \<longrightarrow> s' = removeKeyListener lid s"
    using s'(1) by (auto simp: cleanup_def)
  have 3: "editorRef s = None \<and> lid \<notin> fst ` set (key_listeners s) \<longrightarrow> cleanup lid s = Inr s"
    by (simp add: cleanup_def removeKeyListener_def)
  have 4: "uncaught (run_cleanup s) = uncaught s \<and> effect_cleanup (run_cleanup s) = None"
  proof (cases "effect_cleanup s")
    case None
    then show ?thesis by (simp add: run_cleanup_def)
  next
    case (Some l)
    obtain t where t: "cleanup l s = Inr t" using cleanup_total by blast
    have "uncaught t = uncaught s"
      using t by (auto simp: cleanup_def call_dispose_def dispose_editor_def emit_def Let_def
          removeKeyListener_def split: if_splits option.splits)
    then show ?thesis by (simp add: run_cleanup_def Some t)
  qed
  have 5: "run_cleanup (run_cleanup s) = run_cleanup s"
    using 4 by (simp add: run_cleanup_def[of "run_cleanup s"])
  have 6: "\<not> containerRef s \<longrightarrow> run_cleanup (main_effect p s) = main_effect p s"
    by (simp add: main_effect_def run_main_effect_def run_cleanup_def)
  have 7: "step (init pol) Unmount = init pol" by (simp add: init_def)
  have 8: "step (step s Unmount) Unmount = step s Unmount" by (simp add: unmount_def)
  from 4 have u4: "uncaught (run_cleanup s) = uncaught s" by simp
  have 0: "\<exists>s'. cleanup lid s = Inr s' \<and> cleanup lid s' = Inr s'
        \<and> (editorRef s = None \<longrightarrow> s' = removeKeyListener lid s)"
    by (rule exI[of _ s'], intro conjI, rule s'(1), rule 1, rule 2)
  show ?thesis
    by (intro conjI) (rule 0 3 u4 5 6 7 8)+
qed

theorem teardown_is_safe_and_idempotent_witness:
  "cleanup 0 (init monaco_policy) = Inr (init monaco_policy)
   \<and> run_cleanup (main_effect demo_props (init monaco_policy)) =
       main_effect demo_props (init monaco_policy)"
proof -
  have "editorRef (init monaco_policy) = None \<and> 0 \<notin> fst ` set (key_listeners (init monaco_policy))"
    and "\<not> containerRef (init monaco_policy)"
    by (simp_all add: init_def)
  with teardown_is_safe_and_idempotent[of 0 "init monaco_policy" demo_props] show ?thesis by blast
qed

lemma unmounted_step:
  assumes "wf s" "\<not> mounted s" "\<not> is_mount i"
  shows "\<exists>tm. step s i = s\<lparr>timers := tm\<rparr>"
proof -
  from wf_unmounted[OF assms(1,2)] have n: "editorRef s = None" by simp
  from wf_no_session[OF assms(1) n] have d: "dom_widget s = None" by simp
  show ?thesis
  proof (cases i)
    case (Mount p)
    with assms(3) show ?thesis by simp
  next
    case (Rerender p)
    with assms(2) show ?thesis by (auto intro: exI[of _ "timers s"])
  next
    case Unmount
    with assms(2) show ?thesis by (auto intro: exI[of _ "timers s"])
  next
    case Flush
    with assms(2) show ?thesis by (auto simp: flush_idle intro: exI[of _ "timers s"])
  next
    case (KeyDown e)
    then show ?thesis by (auto simp: keydown_unmounted[OF assms(2) d] intro: exI[of _ "timers s"])
  next
    case (UserEdit t)
    then show ?thesis by (auto simp: user_edits_no_session[OF assms(1) n] intro: exI[of _ "timers s"])
  next
    case (TimerFires k typed undone)
    have "editorRef s \<noteq> Some k" using n by simp
    from timer_fires_stale[OF assms(1) this, of typed undone] TimerFires show ?thesis by simp
  qed
qed

lemma unmounted_run:
  assumes "wf s" "\<not> mounted s" "\<forall>i \<in> set post. \<not> is_mount i"
  shows "\<exists>tm. run s post = s\<lparr>timers := tm\<rparr>"
  using assms(3)
proof (induction post rule: rev_induct)
  case Nil
  show ?case by (auto simp: run_Nil intro: exI[of _ "timers s"])
next
  case (snoc i post)
  then obtain tm where r: "run s post = s\<lparr>timers := tm\<rparr>" by auto
  have "wf (s\<lparr>timers := tm\<rparr>)" "\<not> mounted (s\<lparr>timers := tm\<rparr>)" "\<not> is_mount i"
    using assms(1,2) snoc.prems by simp_all
  from unmounted_step[OF this] obtain tm' where "step (s\<lparr>timers := tm\<rparr>) i = s\<lparr>timers := tm'\<rparr>"
    by auto
  then show ?case by (auto simp: run_snoc r)
qed

text \<open>
  Claim C6. Once the component is unmounted, and as long as it is not mounted again, no key
  press, edit, render request, flush or timer has any effect beyond removing a timer from
  the pending ones: in particular the delayed nudge finds the widget disposed and does
  nothing, no host callback is invoked and no further error escapes.
\<close>

theorem no_host_call_after_unmount:
  assumes "s = step (run (init pol) ins) Unmount" and "\<forall>i \<in> set post. \<not> is_mount i"
  shows "(\<exists>tm. run s post = s\<lparr>timers := tm\<rparr>)
     \<and> host_calls (trace (run s post)) = host_calls (trace s)
     \<and> uncaught (run s post) = uncaught s"
proof -
  have w: "wf s" unfolding assms(1) by (rule wf_step[OF wf_run])
  have m: "\<not> mounted s" by (simp add: assms(1) unmount_def)
  from unmounted_run[OF w m assms(2)] obtain tm where r: "run s post = s\<lparr>timers := tm\<rparr>" by blast
  show ?thesis by (auto simp: r)
qed

theorem no_host_call_after_unmount_witness:
  "host_calls (trace (run (step (run (init monaco_policy) [Mount demo_props]) Unmount)
       [TimerFires 0 '' ab'' ''ab'', KeyDown (ctrl_s True), UserEdit ''x'', Flush])) =
   host_calls (trace (step (run (init monaco_policy) [Mount demo_props]) Unmount))"
proof -
  have "\<forall>i \<in> set [TimerFires 0 '' ab'' ''ab'', KeyDown (ctrl_s True), UserEdit ''x'', Flush].
          \<not> is_mount i"
    by simp
  with no_host_call_after_unmount[OF refl,
      of "[TimerFires 0 '' ab'' ''ab'', KeyDown (ctrl_s True), UserEdit ''x'', Flush]"
      monaco_policy "[Mount demo_props]"]
  show ?thesis by blast
qed

text \<open>
  Claim C1, evaluated on the source. The registration effect has the dependency list
  \<^verbatim>\<open>[]\<close> and so runs at every mount. The worker resolution is guarded by the test of
  \<^verbatim>\<open>window.MonacoEnvironment\<close> and is installed once. The language registration has no
  guard of its own, only the \<^verbatim>\<open>try\<close> around it: with an engine that accepts an id that
  is registered already, a second mount registers the language, its tokenizer and its
  configuration a second time. The registration effect runs before the main effect, and
  what becomes of the main effect does not bear on it.
\<close>

theorem registration_repeats_on_remount:
  "count_list (trace (run (init monaco_policy) [Mount demo_props, Unmount, Mount demo_props]))
     (LanguageRegistered ''javascript'') = 2
   \<and> count_list (trace (run (init monaco_policy) [Mount demo_props, Unmount, Mount demo_props]))
     (TokensProviderSet ''javascript'') = 2
   \<and> count_list (trace (run (init monaco_policy) [Mount demo_props, Unmount, Mount demo_props]))
     (LanguageConfigurationSet ''javascript'') = 2
   \<and> count_list (trace (run (init monaco_policy) [Mount demo_props, Unmount, Mount demo_props]))
     WorkerEnvironmentInstalled = 1
   \<and> languages (run (init monaco_policy) [Mount demo_props, Unmount, Mount demo_props]) =
     [''javascript'', ''javascript'']"
  by code_simp














text \<open>
  Claim C10, evaluated on the source. The main effect depends on \<^verbatim>\<open>onSave\<close>, so a render with
  another \<^verbatim>\<open>onSave\<close> runs the cleanup and then the effect again. The cleanup disposes the
  widget and leaves the model, which the engine keeps; the effect asks for a new model at
  the same URI, and the engine throws. The key listener is added before that and stays:
  the session is gone, no document holds the current \<^verbatim>\<open>initialCode\<close>, the error reaches
  no handler, and a save gesture afterwards calls nothing. What the claim says of the
  captured callbacks holds: after a render that brings another \<^verbatim>\<open>onCodeChange\<close> only, an
  edit is notified to the callback of the mount, and the save gesture calls the
  \<^verbatim>\<open>onSave\<close> of the mount.
\<close>

theorem onSave_change_loses_session:
  "ready (run (init monaco_policy) [Mount demo_props, Flush, UserEdit ''abx''])
   \<and> \<not> ready (run (init monaco_policy)
         [Mount demo_props, Flush, UserEdit ''abx'', Rerender (demo_props\<lparr>onSave := Some 9\<rparr>)])
   \<and> editorRef (run (init monaco_policy)
         [Mount demo_props, Flush, UserEdit ''abx'', Rerender (demo_props\<lparr>onSave := Some 9\<rparr>)]) = None
   \<and> length (editors (run (init monaco_policy)
         [Mount demo_props, Flush, UserEdit ''abx'', Rerender (demo_props\<lparr>onSave := Some 9\<rparr>)])) = 1
   \<and> uncaught (run (init monaco_policy)
         [Mount demo_props, Flush, UserEdit ''abx'', Rerender (demo_props\<lparr>onSave := Some 9\<rparr>)]) =
       [ModelAlreadyExists]
   \<and> key_listeners (run (init monaco_policy)
         [Mount demo_props, Flush, UserEdit ''abx'', Rerender (demo_props\<lparr>onSave := Some 9\<rparr>)]) =
       [(1, 1, Some 9)]
   \<and> effect_cleanup (run (init monaco_policy)
         [Mount demo_props, Flush, UserEdit ''abx'', Rerender (demo_props\<lparr>onSave := Some 9\<rparr>)]) = None
   \<and> trace (run (init monaco_policy)
         [Mount demo_props, Flush, UserEdit ''abx'', Rerender (demo_props\<lparr>onSave := Some 9\<rparr>)]) =
       trace (run (init monaco_policy) [Mount demo_props, Flush, UserEdit ''abx'']) @
         [KeyListenerRemoved 0, EditorDisposed 0, EditorRefCleared, KeyListenerAdded 1,
          LanguageServiceConfigured]
   \<and> trace (run (init monaco_policy)
         [Mount demo_props, Flush, UserEdit ''abx'', Rerender (demo_props\<lparr>onSave := Some 9\<rparr>),
          KeyDown (ctrl_s True)]) =
       trace (run (init monaco_policy)
         [Mount demo_props, Flush, UserEdit ''abx'', Rerender (demo_props\<lparr>onSave := Some 9\<rparr>)]) @
         [DefaultPrevented]
   \<and> trace (run (init monaco_policy)
         [Mount demo_props, Flush, Rerender (demo_props\<lparr>onCodeChange := Some 7\<rparr>),
          UserEdit ''z'', KeyDown (ctrl_s True)]) =
       trace (run (init monaco_policy) [Mount demo_props, Flush]) @
         [OnCodeChange 1 ''z'', DefaultPrevented, OnSave 2 ''z'']"
  by code_simp


end
